theory Spec2Isabelle
  imports Main "HOL-Library.Sublist"
begin

section \<open>Python values\<close>

text \<open>
  The middleware handles JSON payloads: after \<^verbatim>\<open>request.get_json()\<close> a payload is a
  Python value built from \<^verbatim>\<open>None\<close>, booleans, integers, strings, lists and dicts.
  A dict keeps its insertion order, so it is an association list. Non-integer numbers
  are left out of the model; no operation of the middleware computes with numbers.
\<close>

datatype json =
    JNull
  | JBool bool
  | JInt int
  | JStr string
  | JList "json list"
  | JObj "(string \<times> json) list"

type_synonym dict = "(string \<times> json) list"

text \<open>Python truthiness, as used by \<^verbatim>\<open>if not x\<close>.\<close>

fun truthy :: "json \<Rightarrow> bool" where
  "truthy JNull = False"
| "truthy (JBool b) = b"
| "truthy (JInt n) = (n \<noteq> 0)"
| "truthy (JStr s) = (s \<noteq> [])"
| "truthy (JList xs) = (xs \<noteq> [])"
| "truthy (JObj kvs) = (kvs \<noteq> [])"

text \<open>\<^verbatim>\<open>isinstance(data, dict)\<close>.\<close>

fun isinstance_dict :: "json \<Rightarrow> bool" where
  "isinstance_dict (JObj kvs) = True"
| "isinstance_dict v = False"

text \<open>\<^verbatim>\<open>d.get(k)\<close>: the value stored under the key, \<^verbatim>\<open>None\<close> when the key is absent.\<close>

definition dict_get :: "dict \<Rightarrow> string \<Rightarrow> json" where
  "dict_get d k = (case map_of d k of None \<Rightarrow> JNull | Some v \<Rightarrow> v)"

text \<open>\<^verbatim>\<open>k in d\<close>.\<close>

definition dict_contains :: "dict \<Rightarrow> string \<Rightarrow> bool" where
  "dict_contains d k = (map_of d k \<noteq> None)"

text \<open>A string between single quotes, as the messages of the service embed identifiers.\<close>

definition quoted :: "string \<Rightarrow> string" where
  "quoted s = CHR 0x27 # s @ [CHR 0x27]"

section \<open>Formatting an integer with \<^verbatim>\<open>:05d\<close>\<close>

definition digit_char :: "nat \<Rightarrow> char" where
  "digit_char d = ''0123456789'' ! (d mod 10)"

fun str_nat :: "nat \<Rightarrow> string" where
  "str_nat n = (if n < 10 then [digit_char n] else str_nat (n div 10) @ [digit_char (n mod 10)])"

text \<open>
  The format specification \<^verbatim>\<open>05d\<close>: decimal digits, padded on the left with zeros to a
  width of at least five characters; a minus sign comes first and counts for the width.
\<close>

definition zero_pad :: "nat \<Rightarrow> string \<Rightarrow> string" where
  "zero_pad w s = replicate (w - length s) (CHR ''0'') @ s"

definition format_05d :: "int \<Rightarrow> string" where
  "format_05d n =
     (if n < 0 then CHR ''-'' # zero_pad 4 (str_nat (nat (- n)))
      else zero_pad 5 (str_nat (nat n)))"

section \<open>config.py\<close>

text \<open>
  Every connection setting is read with \<^verbatim>\<open>os.getenv\<close>, which gives \<^verbatim>\<open>None\<close> for a variable
  that is not set.
\<close>

record settings =
  SAP_HOST :: "string option"
  SAP_CLIENT :: "string option"
  SAP_USER :: "string option"
  SAP_PASSWORD :: "string option"
  SAP_SYSTEM_NUMBER :: "string option"
  API_KEY :: "string option"
  FLASK_APP :: string
  FLASK_ENV :: string
  DEBUG :: bool

section \<open>sap\_service.py\<close>

text \<open>
  The three exception classes of the service, each carrying its message, and one more
  constructor for any other exception. All three derive from \<^verbatim>\<open>Exception\<close> directly.
  A raise is the left injection of a sum. Logging is not modelled.
\<close>

datatype exn =
    SAPConnectionError string
  | SAPNotFoundError string
  | SAPOperationError string
  | Exception string

definition connect_to_sap :: "settings \<Rightarrow> exn + dict" where
  "connect_to_sap s =
     (if SAP_HOST s = Some ''fail_connection''
      then Inl (SAPConnectionError ''Failed to connect to SAP: Host unreachable (simulated)'')
      else Inr [(''status'', JStr ''connected''),
                (''host'', case SAP_HOST s of None \<Rightarrow> JNull | Some h \<Rightarrow> JStr h)])"

definition read_material_data :: "settings \<Rightarrow> string \<Rightarrow> exn + dict" where
  "read_material_data s material_id =
     (case (case connect_to_sap s of
              Inl e \<Rightarrow> Inl e
            | Inr conn \<Rightarrow>
                if \<not> truthy (JObj conn)
                then Inl (SAPConnectionError
                  ''Connection not established for read_material_data (unexpected internal state)'')
                else Inr conn) of
        Inl e \<Rightarrow> Inl e
      | Inr conn \<Rightarrow>
          if material_id = ''INVALID'' \<or> material_id = ''NOT_FOUND''
          then Inl (SAPNotFoundError (''Material with ID '' @ quoted material_id @ '' not found.''))
          else if material_id = ''ERROR_READ''
          then Inl (SAPOperationError
            (''Failed to read data for material '' @ quoted material_id @ '' (simulated).''))
          else Inr [(''material_id'', JStr material_id),
                    (''description'', JStr (''Sample Material '' @ material_id)),
                    (''quantity'', JInt 100),
                    (''unit'', JStr ''EA''),
                    (''plant'', JStr ''1000'')])"

text \<open>
  \<^verbatim>\<open>hash\<close> and \<^verbatim>\<open>str\<close> are Python built-ins: they are parameters \<open>py_hash\<close> and \<open>py_str\<close> of
  the model. Within one interpreter process both are functions of their argument.
  In the blocked-customer branch \<open>customer_id\<close> is the string \<^verbatim>\<open>FAIL_CUSTOMER\<close>, which is
  what the message formats.
\<close>

definition create_sales_order ::
  "(string \<Rightarrow> int) \<Rightarrow> (json \<Rightarrow> string) \<Rightarrow> settings \<Rightarrow> dict \<Rightarrow> exn + dict" where
  "create_sales_order py_hash py_str s order_data =
     (case (case connect_to_sap s of
              Inl e \<Rightarrow> Inl e
            | Inr conn \<Rightarrow>
                if \<not> truthy (JObj conn)
                then Inl (SAPConnectionError
                  ''Connection not established for create_sales_order (unexpected internal state)'')
                else Inr conn) of
        Inl e \<Rightarrow> Inl e
      | Inr conn \<Rightarrow>
          (let customer_id = dict_get order_data ''customer_id'';
               items = dict_get order_data ''items''
           in if \<not> truthy customer_id \<or> \<not> truthy items
              then Inl (SAPOperationError
                ''Invalid order data: customer_id and items are required.'')
              else if customer_id = JStr ''FAIL_CUSTOMER''
              then Inl (SAPOperationError
                (''Customer '' @ quoted ''FAIL_CUSTOMER'' @ '' is not valid for sales order creation.''))
              else
                (let simulated_order_id =
                       ''SO'' @ format_05d (\<bar>py_hash (py_str (JObj order_data))\<bar> mod 100000)
                 in Inr [(''status'', JStr ''success''),
                         (''order_id'', JStr simulated_order_id),
                         (''message'',
                            JStr ''Sales order created successfully in SAP (simulated).'')])))"

section \<open>auth.py and app.py\<close>

text \<open>
  A handler returns the pair of a JSON body and a status code. To tell whether the
  backend stub was reached, a handler also returns the list of the calls it made to
  \<^verbatim>\<open>sap_service\<close>, in order.
\<close>

type_synonym response = "json \<times> nat"

datatype backend_call =
    Call_read_material_data string
  | Call_create_sales_order dict

type_synonym outcome = "response \<times> backend_call list"

text \<open>
  The decorator. \<open>api_key\<close> is \<^verbatim>\<open>request.headers.get('X-API-KEY')\<close>, \<^verbatim>\<open>None\<close> when the
  header is absent; \<open>f\<close> is the wrapped handler and \<open>args\<close> its arguments.
\<close>

definition api_key_required ::
  "settings \<Rightarrow> ('a \<Rightarrow> outcome) \<Rightarrow> string option \<Rightarrow> 'a \<Rightarrow> outcome" where
  "api_key_required s f api_key args =
     (if (api_key \<noteq> None \<and> api_key \<noteq> Some []) \<and> api_key = API_KEY s
      then f args
      else ((JObj [(''message'', JStr ''Unauthorized: Invalid or missing API Key'')], 401), []))"

text \<open>The \<^verbatim>\<open>except\<close> clauses of \<^verbatim>\<open>get_material\<close>.\<close>

fun get_material_except :: "exn \<Rightarrow> response" where
  "get_material_except (SAPNotFoundError e) = (JObj [(''error'', JStr e)], 404)"
| "get_material_except (SAPConnectionError e) =
     (JObj [(''error'', JStr (''SAP connection error: '' @ e))], 503)"
| "get_material_except (SAPOperationError e) =
     (JObj [(''error'', JStr (''SAP operation error: '' @ e))], 500)"
| "get_material_except (Exception e) =
     (JObj [(''error'', JStr ''An unexpected error occurred'')], 500)"

definition get_material :: "settings \<Rightarrow> string \<Rightarrow> outcome" where
  "get_material s material_id =
     ((case read_material_data s material_id of
         Inr material_data \<Rightarrow> (JObj material_data, 200)
       | Inl e \<Rightarrow> get_material_except e),
      [Call_read_material_data material_id])"

text \<open>The \<^verbatim>\<open>except\<close> clauses of \<^verbatim>\<open>create_sales_order_api\<close>.\<close>

fun create_sales_order_api_except :: "exn \<Rightarrow> response" where
  "create_sales_order_api_except (SAPConnectionError e) =
     (JObj [(''error'', JStr (''SAP connection error: '' @ e))], 503)"
| "create_sales_order_api_except (SAPOperationError e) =
     (JObj [(''error'', JStr (''SAP operation error: '' @ e))], 400)"
| "create_sales_order_api_except (SAPNotFoundError e) =
     (JObj [(''error'', JStr ''An unexpected error occurred'')], 500)"
| "create_sales_order_api_except (Exception e) =
     (JObj [(''error'', JStr ''An unexpected error occurred'')], 500)"

text \<open>
  \<open>get_json\<close> is the outcome of \<^verbatim>\<open>request.get_json()\<close>, which is called inside the
  \<^verbatim>\<open>try\<close> block: the parsed body (\<open>JNull\<close> for \<^verbatim>\<open>None\<close>), or the exception it raised.
\<close>

definition create_sales_order_api ::
  "(string \<Rightarrow> int) \<Rightarrow> (json \<Rightarrow> string) \<Rightarrow> settings \<Rightarrow> exn + json \<Rightarrow> outcome" where
  "create_sales_order_api py_hash py_str s get_json =
     (case get_json of
        Inl e \<Rightarrow> (create_sales_order_api_except e, [])
      | Inr data \<Rightarrow>
          if \<not> truthy data \<or> \<not> isinstance_dict data
          then ((JObj [(''error'', JStr ''Invalid input: JSON data expected'')], 400), [])
          else (case data of
                  JObj d \<Rightarrow>
                    if \<not> dict_contains d ''details''
                    then ((JObj [(''error'',
                             JStr ''Invalid input: 'details' key missing in JSON payload'')], 400),
                          [])
                    else ((case create_sales_order py_hash py_str s d of
                             Inr order_confirmation \<Rightarrow> (JObj order_confirmation, 201)
                           | Inl e \<Rightarrow> create_sales_order_api_except e),
                          [Call_create_sales_order d])
                | _ \<Rightarrow> ((JObj [(''error'', JStr ''Invalid input: JSON data expected'')], 400), [])))"

text \<open>The two protected routes: the handler behind the decorator.\<close>

definition get_material_route :: "settings \<Rightarrow> string option \<Rightarrow> string \<Rightarrow> outcome" where
  "get_material_route s api_key material_id =
     api_key_required s (get_material s) api_key material_id"

definition sales_order_route ::
  "(string \<Rightarrow> int) \<Rightarrow> (json \<Rightarrow> string) \<Rightarrow> settings \<Rightarrow> string option \<Rightarrow> exn + json \<Rightarrow> outcome" where
  "sales_order_route py_hash py_str s api_key get_json =
     api_key_required s (create_sales_order_api py_hash py_str s) api_key get_json"

section \<open>The order identifier pattern and sample inputs\<close>



text \<open>
  Concrete settings, built-ins and payloads at which the model is evaluated below.
  The sample hash and string functions stand for the two built-ins only there: every
  theorem holds for all functions in their place.
\<close>

definition sample_settings :: settings where
  "sample_settings =
     \<lparr>SAP_HOST = Some ''sap.example.com'', SAP_CLIENT = Some ''100'',
      SAP_USER = Some ''middleware'', SAP_PASSWORD = Some ''secret'',
      SAP_SYSTEM_NUMBER = Some ''00'', API_KEY = Some ''test_api_key_for_testing'',
      FLASK_APP = ''sap_middleware/app.py'', FLASK_ENV = ''development'', DEBUG = True\<rparr>"

definition failing_settings :: settings where
  "failing_settings = sample_settings\<lparr>SAP_HOST := Some ''fail_connection''\<rparr>"

definition sample_hash :: "string \<Rightarrow> int" where
  "sample_hash s = int (sum_list (map of_char s))"

fun sample_str :: "json \<Rightarrow> string" where
  "sample_str (JObj kvs) = concat (map fst kvs)"
| "sample_str v = []"

definition sample_order :: dict where
  "sample_order =
     [(''customer_id'', JStr ''CUST001''),
      (''items'', JList [JObj [(''material_id'', JStr ''MAT001''), (''quantity'', JInt 10)]]),
      (''details'', JObj [(''notes'', JStr ''Test order'')])]"

definition order_without_customer :: dict where
  "order_without_customer =
     [(''details'', JObj [(''notes'', JStr ''Test order but missing core fields'')])]"

definition order_only_details :: dict where
  "order_only_details = [(''details'', JNull)]"

definition order_empty_details :: dict where
  "order_empty_details =
     [(''customer_id'', JStr ''CUST001''),
      (''items'', JList [JObj [(''material_id'', JStr ''MAT001''), (''quantity'', JInt 10)]]),
      (''details'', JStr [])]"

definition order_without_details :: dict where
  "order_without_details =
     [(''customer_id'', JStr ''CUST002''),
      (''items'', JList [JObj [(''material_id'', JStr ''MAT002''), (''quantity'', JInt 5)]])]"

definition blocked_order :: dict where
  "blocked_order =
     [(''customer_id'', JStr ''FAIL_CUSTOMER''),
      (''items'', JList [JObj [(''material_id'', JStr ''MAT003''), (''quantity'', JInt 1)]])]"

definition blocked_order_no_items :: dict where
  "blocked_order_no_items = [(''customer_id'', JStr ''FAIL_CUSTOMER''), (''items'', JList [])]"

definition settings_without_key :: settings where
  "settings_without_key = sample_settings\<lparr>API_KEY := None\<rparr>"

definition settings_empty_key :: settings where
  "settings_empty_key = sample_settings\<lparr>API_KEY := Some []\<rparr>"

text \<open>The outcome of a request that the decorator turns away: its 401 response, no backend call.\<close>

definition unauthorized :: outcome where
  "unauthorized =
     ((JObj [(''message'', JStr ''Unauthorized: Invalid or missing API Key'')], 401), [])"

section \<open>Auxiliary facts\<close>

declare str_nat.simps [simp del]





lemma connect_ok:
  "SAP_HOST s \<noteq> Some ''fail_connection'' \<Longrightarrow> \<exists>conn. connect_to_sap s = Inr conn \<and> conn \<noteq> []"
  by (simp add: connect_to_sap_def)

lemma connect_fails:
  "SAP_HOST s = Some ''fail_connection'' \<Longrightarrow>
   connect_to_sap s =
     Inl (SAPConnectionError ''Failed to connect to SAP: Host unreachable (simulated)'')"
  by (simp add: connect_to_sap_def)

lemma sublist_quoted: "sublist x (a @ quoted x @ b)"
proof -
  have "a @ quoted x @ b = (a @ [CHR 0x27]) @ x @ ([CHR 0x27] @ b)" by (simp add: quoted_def)
  then show ?thesis by (metis sublist_appendI)
qed

lemma dict_contains_nonempty: "dict_contains d k \<Longrightarrow> truthy (JObj d)"
  by (cases d) (simp_all add: dict_contains_def)

lemma read_material_data_connected:
  assumes "SAP_HOST s \<noteq> Some ''fail_connection''"
  shows "read_material_data s material_id =
     (if material_id = ''INVALID'' \<or> material_id = ''NOT_FOUND''
      then Inl (SAPNotFoundError (''Material with ID '' @ quoted material_id @ '' not found.''))
      else if material_id = ''ERROR_READ''
      then Inl (SAPOperationError
        (''Failed to read data for material '' @ quoted material_id @ '' (simulated).''))
      else Inr [(''material_id'', JStr material_id),
                (''description'', JStr (''Sample Material '' @ material_id)),
                (''quantity'', JInt 100),
                (''unit'', JStr ''EA''),
                (''plant'', JStr ''1000'')])"
proof -
  from assms obtain conn where "connect_to_sap s = Inr conn" "conn \<noteq> []"
    using connect_ok by blast
  then show ?thesis by (simp add: read_material_data_def)
qed

lemma create_sales_order_connected:
  assumes "SAP_HOST s \<noteq> Some ''fail_connection''"
  shows "create_sales_order py_hash py_str s order_data =
     (if \<not> truthy (dict_get order_data ''customer_id'') \<or> \<not> truthy (dict_get order_data ''items'')
      then Inl (SAPOperationError ''Invalid order data: customer_id and items are required.'')
      else if dict_get order_data ''customer_id'' = JStr ''FAIL_CUSTOMER''
      then Inl (SAPOperationError
        (''Customer '' @ quoted ''FAIL_CUSTOMER'' @ '' is not valid for sales order creation.''))
      else Inr [(''status'', JStr ''success''),
                (''order_id'', JStr (''SO'' @ format_05d (\<bar>py_hash (py_str (JObj order_data))\<bar> mod 100000))),
                (''message'', JStr ''Sales order created successfully in SAP (simulated).'')])"
proof -
  from assms obtain conn where "connect_to_sap s = Inr conn" "conn \<noteq> []"
    using connect_ok by blast
  then show ?thesis by (simp add: create_sales_order_def Let_def)
qed

lemma absent_or_empty_falsy:
  assumes "map_of d k = None \<or> map_of d k = Some JNull \<or> map_of d k = Some (JStr []) \<or>
           map_of d k = Some (JList []) \<or> map_of d k = Some (JObj [])"
  shows "\<not> truthy (dict_get d k)"
  using assms by (auto simp: dict_get_def)

section \<open>Reading a material\<close>

text \<open>
  Claim C1. For every material identifier outside the reserved set \<^verbatim>\<open>INVALID\<close>,
  \<^verbatim>\<open>NOT_FOUND\<close>, \<^verbatim>\<open>ERROR_READ\<close>, and with a configured host other than the
  connection-fault sentinel, \<open>read_material_data\<close> succeeds; the dict it returns has the
  input identifier under \<^verbatim>\<open>material_id\<close>, a description that contains the identifier,
  quantity 100, unit \<^verbatim>\<open>EA\<close> and plant \<^verbatim>\<open>1000\<close>.
\<close>

theorem read_material_data_success:
  assumes "material_id \<notin> {''INVALID'', ''NOT_FOUND'', ''ERROR_READ''}"
      and "SAP_HOST s \<noteq> Some ''fail_connection''"
  shows "\<exists>material description.
           read_material_data s material_id = Inr material \<and>
           map_of material ''material_id'' = Some (JStr material_id) \<and>
           map_of material ''description'' = Some (JStr description) \<and>
           sublist material_id description \<and>
           map_of material ''quantity'' = Some (JInt 100) \<and>
           map_of material ''unit'' = Some (JStr ''EA'') \<and>
           map_of material ''plant'' = Some (JStr ''1000'')"
proof -
  from assms(2) obtain conn where "connect_to_sap s = Inr conn" "conn \<noteq> []"
    using connect_ok by blast
  with assms(1) have
    "read_material_data s material_id =
       Inr [(''material_id'', JStr material_id),
            (''description'', JStr (''Sample Material '' @ material_id)),
            (''quantity'', JInt 100), (''unit'', JStr ''EA''), (''plant'', JStr ''1000'')]"
    by (simp add: read_material_data_def)
  moreover have "sublist material_id (''Sample Material '' @ material_id)"
    by (rule suffix_imp_sublist) (rule suffix_appendI, rule suffix_order.refl)
  ultimately show ?thesis by simp
qed

theorem read_material_data_success_witness:
  "''MAT001'' \<notin> {''INVALID'', ''NOT_FOUND'', ''ERROR_READ''} \<and>
   SAP_HOST sample_settings \<noteq> Some ''fail_connection'' \<and>
   (\<exists>material description.
      read_material_data sample_settings ''MAT001'' = Inr material \<and>
      map_of material ''material_id'' = Some (JStr ''MAT001'') \<and>
      map_of material ''description'' = Some (JStr description) \<and>
      sublist ''MAT001'' description \<and>
      map_of material ''quantity'' = Some (JInt 100) \<and>
      map_of material ''unit'' = Some (JStr ''EA'') \<and>
      map_of material ''plant'' = Some (JStr ''1000''))"
proof -
  have a: "''MAT001'' \<notin> {''INVALID'', ''NOT_FOUND'', ''ERROR_READ''}" by simp
  have b: "SAP_HOST sample_settings \<noteq> Some ''fail_connection''"
    by (simp add: sample_settings_def)
  from read_material_data_success [OF a b] a b show ?thesis by blast
qed

section \<open>The status codes of the two handlers\<close>

text \<open>
  Claim C2. The two handlers map the same backend failure to different statuses:
  \<open>get_material\<close> answers an operation failure with 500, \<open>create_sales_order_api\<close>
  answers it with 400. \<open>get_material\<close> answers not-found with 404 and a connection failure
  with 503; \<open>create_sales_order_api\<close> answers a connection failure with 503. Each answers
  any other exception with 500 and a generic message. The last three conjuncts tie the
  \<^verbatim>\<open>except\<close> clauses to the handlers: whatever the stub (or, in the POST handler,
  \<^verbatim>\<open>request.get_json()\<close>) raises goes through them.
\<close>

theorem handlers_map_failures_to_statuses:
  "get_material_except (SAPOperationError m) =
     (JObj [(''error'', JStr (''SAP operation error: '' @ m))], 500) \<and>
   create_sales_order_api_except (SAPOperationError m) =
     (JObj [(''error'', JStr (''SAP operation error: '' @ m))], 400) \<and>
   snd (get_material_except (SAPNotFoundError m)) = 404 \<and>
   snd (get_material_except (SAPConnectionError m)) = 503 \<and>
   snd (create_sales_order_api_except (SAPConnectionError m)) = 503 \<and>
   get_material_except (Exception m) =
     (JObj [(''error'', JStr ''An unexpected error occurred'')], 500) \<and>
   create_sales_order_api_except (Exception m) =
     (JObj [(''error'', JStr ''An unexpected error occurred'')], 500) \<and>
   (\<forall>e. read_material_data s material_id = Inl e \<longrightarrow>
        fst (get_material s material_id) = get_material_except e) \<and>
   (\<forall>e. dict_contains d ''details'' \<and> create_sales_order py_hash py_str s d = Inl e \<longrightarrow>
        fst (create_sales_order_api py_hash py_str s (Inr (JObj d))) =
          create_sales_order_api_except e) \<and>
   (\<forall>e. fst (create_sales_order_api py_hash py_str s (Inl e)) = create_sales_order_api_except e)"
proof -
  have "fst (create_sales_order_api py_hash py_str s (Inr (JObj d))) =
          create_sales_order_api_except e"
    if "dict_contains d ''details''" "create_sales_order py_hash py_str s d = Inl e" for e
    using that dict_contains_nonempty [OF that(1)]
    by (simp add: create_sales_order_api_def)
  then show ?thesis
    by (simp add: get_material_def create_sales_order_api_def)
qed

theorem handlers_map_failures_to_statuses_witness:
  "(\<exists>m. read_material_data sample_settings ''ERROR_READ'' = Inl (SAPOperationError m) \<and>
        snd (fst (get_material sample_settings ''ERROR_READ'')) = 500) \<and>
   dict_contains order_only_details ''details'' \<and>
   (\<exists>m. create_sales_order sample_hash sample_str sample_settings order_only_details =
          Inl (SAPOperationError m) \<and>
        snd (fst (create_sales_order_api sample_hash sample_str sample_settings
                    (Inr (JObj order_only_details)))) = 400)"
proof -
  have a: "SAP_HOST sample_settings \<noteq> Some ''fail_connection''"
    by (simp add: sample_settings_def)
  have r: "read_material_data sample_settings ''ERROR_READ'' =
             Inl (SAPOperationError (''Failed to read data for material '' @ quoted ''ERROR_READ'' @ '' (simulated).''))"
    using a by (simp add: read_material_data_connected)
  have c: "dict_contains order_only_details ''details''"
    by (simp add: order_only_details_def dict_contains_def)
  have o: "create_sales_order sample_hash sample_str sample_settings order_only_details =
             Inl (SAPOperationError ''Invalid order data: customer_id and items are required.'')"
    using a by (simp add: create_sales_order_connected order_only_details_def dict_get_def)
  from handlers_map_failures_to_statuses
         [of _ sample_settings "''ERROR_READ''" order_only_details sample_hash sample_str]
       r c o
  show ?thesis by simp
qed

section \<open>Creating a sales order\<close>



text \<open>
  Claim C4. With the configured host equal to \<^verbatim>\<open>fail_connection\<close>, both
  \<open>read_material_data\<close> and \<open>create_sales_order\<close> fail with the connection failure on
  every input: the connect step comes before every other check.
\<close>

theorem connection_fault_precedes_all_checks:
  assumes "SAP_HOST s = Some ''fail_connection''"
  shows "read_material_data s material_id =
           Inl (SAPConnectionError ''Failed to connect to SAP: Host unreachable (simulated)'') \<and>
         create_sales_order py_hash py_str s order_data =
           Inl (SAPConnectionError ''Failed to connect to SAP: Host unreachable (simulated)'')"
  using connect_fails [OF assms]
  by (simp add: read_material_data_def create_sales_order_def)

theorem connection_fault_precedes_all_checks_witness:
  "SAP_HOST failing_settings = Some ''fail_connection'' \<and>
   read_material_data failing_settings ''NOT_FOUND'' =
     Inl (SAPConnectionError ''Failed to connect to SAP: Host unreachable (simulated)'') \<and>
   create_sales_order sample_hash sample_str failing_settings blocked_order_no_items =
     Inl (SAPConnectionError ''Failed to connect to SAP: Host unreachable (simulated)'')"
proof -
  have a: "SAP_HOST failing_settings = Some ''fail_connection''"
    by (simp add: failing_settings_def)
  from connection_fault_precedes_all_checks [OF a] a show ?thesis by blast
qed

text \<open>
  Claim C5, as stated, fails at two inputs. With the host \<^verbatim>\<open>fail_connection\<close> an order
  without \<^verbatim>\<open>customer_id\<close> fails with the connection failure, not an operation failure.
  With a working host, an order of the blocked customer with an empty \<^verbatim>\<open>items\<close> list
  fails with the message about required fields, which does not name the customer.
\<close>

theorem create_sales_order_claimed_failures_counterexample:
  "create_sales_order sample_hash sample_str failing_settings order_without_customer =
     Inl (SAPConnectionError ''Failed to connect to SAP: Host unreachable (simulated)'') \<and>
   dict_get blocked_order_no_items ''customer_id'' = JStr ''FAIL_CUSTOMER'' \<and>
   create_sales_order sample_hash sample_str sample_settings blocked_order_no_items =
     Inl (SAPOperationError ''Invalid order data: customer_id and items are required.'') \<and>
   \<not> sublist ''FAIL_CUSTOMER'' ''Invalid order data: customer_id and items are required.''"
proof -
  have "SAP_HOST sample_settings \<noteq> Some ''fail_connection''"
    by (simp add: sample_settings_def)
  then have "create_sales_order sample_hash sample_str sample_settings blocked_order_no_items =
     Inl (SAPOperationError ''Invalid order data: customer_id and items are required.'')"
    by (simp add: create_sales_order_connected blocked_order_no_items_def dict_get_def)
  moreover have "SAP_HOST failing_settings = Some ''fail_connection''"
    by (simp add: failing_settings_def)
  then have "create_sales_order sample_hash sample_str failing_settings order_without_customer =
     Inl (SAPConnectionError ''Failed to connect to SAP: Host unreachable (simulated)'')"
    by (simp add: create_sales_order_def connect_fails)
  moreover have "dict_get blocked_order_no_items ''customer_id'' = JStr ''FAIL_CUSTOMER''"
    by (simp add: blocked_order_no_items_def dict_get_def)
  moreover have "\<not> sublist ''FAIL_CUSTOMER'' ''Invalid order data: customer_id and items are required.''"
    by (simp add: sublist_code)
  ultimately show ?thesis by blast
qed

text \<open>
  Claim C5, amended. When the connect step succeeds, \<open>create_sales_order\<close> fails with the
  operation failure \<^verbatim>\<open>Invalid order data: customer_id and items are required.\<close> whenever
  \<^verbatim>\<open>customer_id\<close> or \<^verbatim>\<open>items\<close> is absent or falsy, and with the operation failure
  \<^verbatim>\<open>Customer 'FAIL_CUSTOMER' is not valid for sales order creation.\<close> whenever
  \<^verbatim>\<open>customer_id\<close> is \<^verbatim>\<open>FAIL_CUSTOMER\<close> and \<^verbatim>\<open>items\<close> is truthy. An absent key and an
  empty value are falsy by \<open>absent_or_empty_falsy\<close>.
\<close>

theorem create_sales_order_operation_failures:
  assumes "SAP_HOST s \<noteq> Some ''fail_connection''"
  shows "(\<not> truthy (dict_get order_data ''customer_id'') \<or> \<not> truthy (dict_get order_data ''items'') \<longrightarrow>
            create_sales_order py_hash py_str s order_data =
              Inl (SAPOperationError ''Invalid order data: customer_id and items are required.'')) \<and>
         (dict_get order_data ''customer_id'' = JStr ''FAIL_CUSTOMER'' \<and>
          truthy (dict_get order_data ''items'') \<longrightarrow>
            create_sales_order py_hash py_str s order_data =
              Inl (SAPOperationError
                ''Customer 'FAIL_CUSTOMER' is not valid for sales order creation.''))"
  using assms by (simp add: create_sales_order_connected quoted_def)

theorem create_sales_order_operation_failures_witness:
  "SAP_HOST sample_settings \<noteq> Some ''fail_connection'' \<and>
   \<not> truthy (dict_get order_without_customer ''customer_id'') \<and>
   create_sales_order sample_hash sample_str sample_settings order_without_customer =
     Inl (SAPOperationError ''Invalid order data: customer_id and items are required.'') \<and>
   dict_get blocked_order ''customer_id'' = JStr ''FAIL_CUSTOMER'' \<and>
   truthy (dict_get blocked_order ''items'') \<and>
   create_sales_order sample_hash sample_str sample_settings blocked_order =
     Inl (SAPOperationError ''Customer 'FAIL_CUSTOMER' is not valid for sales order creation.'')"
proof -
  have a: "SAP_HOST sample_settings \<noteq> Some ''fail_connection''"
    by (simp add: sample_settings_def)
  have b: "\<not> truthy (dict_get order_without_customer ''customer_id'')"
    by (simp add: order_without_customer_def dict_get_def)
  have c: "dict_get blocked_order ''customer_id'' = JStr ''FAIL_CUSTOMER''"
    by (simp add: blocked_order_def dict_get_def)
  have d: "truthy (dict_get blocked_order ''items'')"
    by (simp add: blocked_order_def dict_get_def)
  from create_sales_order_operation_failures [OF a, of order_without_customer sample_hash sample_str]
       create_sales_order_operation_failures [OF a, of blocked_order sample_hash sample_str]
       a b c d
  show ?thesis by blast
qed

section \<open>The reserved material identifiers\<close>

text \<open>
  Claim C6. When the connect step succeeds, \<open>read_material_data\<close> fails with the
  not-found failure on \<^verbatim>\<open>INVALID\<close> and on \<^verbatim>\<open>NOT_FOUND\<close>, with a message that contains
  the identifier, and with the operation failure on \<^verbatim>\<open>ERROR_READ\<close>.
\<close>

theorem read_material_data_sentinels:
  assumes "SAP_HOST s \<noteq> Some ''fail_connection''"
  shows "(\<exists>m. read_material_data s ''INVALID'' = Inl (SAPNotFoundError m) \<and> sublist ''INVALID'' m) \<and>
         (\<exists>m. read_material_data s ''NOT_FOUND'' = Inl (SAPNotFoundError m) \<and> sublist ''NOT_FOUND'' m) \<and>
         (\<exists>m. read_material_data s ''ERROR_READ'' = Inl (SAPOperationError m))"
proof -
  have i: "read_material_data s ''INVALID'' =
             Inl (SAPNotFoundError (''Material with ID '' @ quoted ''INVALID'' @ '' not found.''))"
    using assms by (simp add: read_material_data_connected)
  have n: "read_material_data s ''NOT_FOUND'' =
             Inl (SAPNotFoundError (''Material with ID '' @ quoted ''NOT_FOUND'' @ '' not found.''))"
    using assms by (simp add: read_material_data_connected)
  have e: "\<exists>m. read_material_data s ''ERROR_READ'' = Inl (SAPOperationError m)"
    using assms by (simp add: read_material_data_connected)
  from i n e show ?thesis using sublist_quoted by blast
qed

theorem read_material_data_sentinels_witness:
  "SAP_HOST sample_settings \<noteq> Some ''fail_connection'' \<and>
   (\<exists>m. read_material_data sample_settings ''INVALID'' = Inl (SAPNotFoundError m) \<and>
        sublist ''INVALID'' m) \<and>
   (\<exists>m. read_material_data sample_settings ''NOT_FOUND'' = Inl (SAPNotFoundError m) \<and>
        sublist ''NOT_FOUND'' m) \<and>
   (\<exists>m. read_material_data sample_settings ''ERROR_READ'' = Inl (SAPOperationError m))"
proof -
  have a: "SAP_HOST sample_settings \<noteq> Some ''fail_connection''"
    by (simp add: sample_settings_def)
  from read_material_data_sentinels [OF a] a show ?thesis by blast
qed

section \<open>The checks of the POST handler\<close>

text \<open>
  Claim C7, as stated, fails at the empty mapping: \<^verbatim>\<open>{}\<close> is a mapping without the
  \<^verbatim>\<open>details\<close> key, and the handler answers it with \<^verbatim>\<open>Invalid input: JSON data expected\<close>,
  since \<^verbatim>\<open>not data\<close> holds of an empty dict.
\<close>

theorem empty_mapping_body_counterexample:
  "isinstance_dict (JObj []) \<and> \<not> dict_contains [] ''details'' \<and>
   create_sales_order_api sample_hash sample_str sample_settings (Inr (JObj [])) =
     ((JObj [(''error'', JStr ''Invalid input: JSON data expected'')], 400), []) \<and>
   \<not> sublist ''details'' ''Invalid input: JSON data expected''"
  by (simp add: create_sales_order_api_def dict_contains_def sublist_code)

text \<open>
  Claim C7, amended. \<open>create_sales_order_api\<close> answers 400 with
  \<^verbatim>\<open>Invalid input: JSON data expected\<close> when the parsed body is falsy (\<^verbatim>\<open>None\<close>, the empty
  mapping) or not a mapping, and 400 with
  \<^verbatim>\<open>Invalid input: 'details' key missing in JSON payload\<close> when the body is a non-empty
  mapping without the \<^verbatim>\<open>details\<close> key; in both cases it makes no backend call.
\<close>

theorem create_sales_order_api_input_checks:
  "(\<not> truthy data \<or> \<not> isinstance_dict data \<longrightarrow>
      create_sales_order_api py_hash py_str s (Inr data) =
        ((JObj [(''error'', JStr ''Invalid input: JSON data expected'')], 400), [])) \<and>
   (d \<noteq> [] \<and> \<not> dict_contains d ''details'' \<longrightarrow>
      create_sales_order_api py_hash py_str s (Inr (JObj d)) =
        ((JObj [(''error'', JStr ''Invalid input: 'details' key missing in JSON payload'')], 400),
         []))"
  by (simp add: create_sales_order_api_def)

theorem create_sales_order_api_input_checks_witness:
  "\<not> truthy JNull \<and>
   create_sales_order_api sample_hash sample_str sample_settings (Inr JNull) =
     ((JObj [(''error'', JStr ''Invalid input: JSON data expected'')], 400), []) \<and>
   \<not> isinstance_dict (JList [JInt 1]) \<and>
   create_sales_order_api sample_hash sample_str sample_settings (Inr (JList [JInt 1])) =
     ((JObj [(''error'', JStr ''Invalid input: JSON data expected'')], 400), []) \<and>
   order_without_details \<noteq> [] \<and> \<not> dict_contains order_without_details ''details'' \<and>
   create_sales_order_api sample_hash sample_str sample_settings (Inr (JObj order_without_details)) =
     ((JObj [(''error'', JStr ''Invalid input: 'details' key missing in JSON payload'')], 400), [])"
proof -
  have a: "order_without_details \<noteq> []" by (simp add: order_without_details_def)
  have b: "\<not> dict_contains order_without_details ''details''"
    by (simp add: order_without_details_def dict_contains_def)
  from create_sales_order_api_input_checks [of JNull sample_hash sample_str sample_settings order_without_details]
       create_sales_order_api_input_checks [of "JList [JInt 1]" sample_hash sample_str sample_settings order_without_details]
       a b
  show ?thesis by simp
qed

section \<open>The API key gate\<close>

text \<open>
  Claim C8. The decorator compares the \<^verbatim>\<open>X-API-KEY\<close> header with the configured secret
  for equality of strings. When the header is absent, empty or different from the secret,
  the outcome is the 401 response with a \<^verbatim>\<open>message\<close> field, whatever the wrapped handler
  is, and no backend call is made; this holds of both protected routes. When the header
  is non-empty and equal to the secret, the outcome is that of the wrapped handler.
\<close>

theorem api_key_gate:
  "(api_key = None \<or> api_key = Some [] \<or> api_key \<noteq> API_KEY s \<longrightarrow>
      api_key_required s f api_key args = unauthorized \<and>
      get_material_route s api_key material_id = unauthorized \<and>
      sales_order_route py_hash py_str s api_key get_json = unauthorized) \<and>
   (api_key = Some k \<and> k \<noteq> [] \<and> API_KEY s = Some k \<longrightarrow>
      api_key_required s f api_key args = f args) \<and>
   snd (fst unauthorized) = 401 \<and>
   (\<exists>body message. fst (fst unauthorized) = JObj body \<and> map_of body ''message'' = Some (JStr message)) \<and>
   snd unauthorized = []"
  by (auto simp: api_key_required_def unauthorized_def get_material_route_def sales_order_route_def)

theorem api_key_gate_witness:
  "api_key_required sample_settings (get_material sample_settings) None ''TESTMAT'' = unauthorized \<and>
   api_key_required sample_settings (get_material sample_settings) (Some []) ''TESTMAT'' = unauthorized \<and>
   Some ''TEST_API_KEY_FOR_TESTING'' \<noteq> API_KEY sample_settings \<and>
   get_material_route sample_settings (Some ''TEST_API_KEY_FOR_TESTING'') ''TESTMAT'' = unauthorized \<and>
   API_KEY sample_settings = Some ''test_api_key_for_testing'' \<and>
   api_key_required sample_settings (get_material sample_settings)
     (Some ''test_api_key_for_testing'') ''TESTMAT'' = get_material sample_settings ''TESTMAT'' \<and>
   snd (get_material sample_settings ''TESTMAT'') = [Call_read_material_data ''TESTMAT'']"
proof -
  have a: "Some ''TEST_API_KEY_FOR_TESTING'' \<noteq> API_KEY sample_settings"
    by (simp add: sample_settings_def)
  have b: "API_KEY sample_settings = Some ''test_api_key_for_testing''"
    by (simp add: sample_settings_def)
  have c: "snd (get_material sample_settings ''TESTMAT'') = [Call_read_material_data ''TESTMAT'']"
    by (simp add: get_material_def)
  have d: "''test_api_key_for_testing'' \<noteq> []" by simp
  note g = api_key_gate [where s = sample_settings and f = "get_material sample_settings"
             and args = "''TESTMAT''" and material_id = "''TESTMAT''" and py_hash = sample_hash
             and py_str = sample_str and get_json = "Inr JNull" and k = "''test_api_key_for_testing''"]
  from g [of None] g [of "Some []"] g [of "Some ''TEST_API_KEY_FOR_TESTING''"]
       g [of "Some ''test_api_key_for_testing''"] a b c d
  show ?thesis by blast
qed

text \<open>
  Claim C9. When the configured secret is unset or the empty string, the decorator turns
  every request away with the 401 response, whatever the header: both protected routes
  are closed, not open.
\<close>

theorem unset_secret_locks_endpoints:
  assumes "API_KEY s = None \<or> API_KEY s = Some []"
  shows "api_key_required s f api_key args = unauthorized \<and>
         get_material_route s api_key material_id = unauthorized \<and>
         sales_order_route py_hash py_str s api_key get_json = unauthorized"
  using assms
  by (auto simp: api_key_required_def unauthorized_def get_material_route_def sales_order_route_def)

theorem unset_secret_locks_endpoints_witness:
  "API_KEY settings_without_key = None \<and>
   get_material_route settings_without_key (Some ''test_api_key_for_testing'') ''TESTMAT'' =
     unauthorized \<and>
   get_material_route settings_without_key None ''TESTMAT'' = unauthorized \<and>
   API_KEY settings_empty_key = Some [] \<and>
   sales_order_route sample_hash sample_str settings_empty_key (Some []) (Inr (JObj sample_order)) =
     unauthorized \<and>
   snd unauthorized = []"
proof -
  have a: "API_KEY settings_without_key = None"
    by (simp add: settings_without_key_def sample_settings_def)
  have b: "API_KEY settings_empty_key = Some []"
    by (simp add: settings_empty_key_def sample_settings_def)
  have c: "snd unauthorized = []" by (simp add: unauthorized_def)
  note n = unset_secret_locks_endpoints [OF disjI1 [OF a],
             where f = "get_material settings_without_key" and args = "''TESTMAT''"
               and material_id = "''TESTMAT''" and py_hash = sample_hash and py_str = sample_str
               and get_json = "Inr (JObj sample_order)"]
  note e = unset_secret_locks_endpoints [OF disjI2 [OF b],
             where f = "get_material settings_empty_key" and args = "''TESTMAT''"
               and material_id = "''TESTMAT''" and py_hash = sample_hash and py_str = sample_str
               and get_json = "Inr (JObj sample_order)" and api_key = "Some []"]
  from n [of "Some ''test_api_key_for_testing''"] n [of None] e a b c
  show ?thesis by blast
qed

text \<open>
  Claim C10. \<open>create_sales_order_api\<close> checks that the \<^verbatim>\<open>details\<close> key is present and
  never looks at its value: for every mapping body with the key, whatever is stored under
  it, the handler calls \<open>create_sales_order\<close> once, with the whole body, and its response is
  determined by the outcome of that call.
\<close>

theorem details_key_presence_only:
  assumes "map_of d ''details'' = Some v"
  shows "create_sales_order_api py_hash py_str s (Inr (JObj d)) =
           ((case create_sales_order py_hash py_str s d of
               Inr order_confirmation \<Rightarrow> (JObj order_confirmation, 201)
             | Inl e \<Rightarrow> create_sales_order_api_except e),
            [Call_create_sales_order d])"
proof -
  from assms have c: "dict_contains d ''details''" by (simp add: dict_contains_def)
  then have "truthy (JObj d)" by (rule dict_contains_nonempty)
  with c show ?thesis by (simp add: create_sales_order_api_def)
qed

theorem details_key_presence_only_witness:
  "map_of order_only_details ''details'' = Some JNull \<and>
   create_sales_order_api sample_hash sample_str sample_settings (Inr (JObj order_only_details)) =
     ((JObj [(''error'',
         JStr ''SAP operation error: Invalid order data: customer_id and items are required.'')],
       400),
      [Call_create_sales_order order_only_details]) \<and>
   map_of order_empty_details ''details'' = Some (JStr []) \<and>
   snd (create_sales_order_api sample_hash sample_str sample_settings
          (Inr (JObj order_empty_details))) = [Call_create_sales_order order_empty_details] \<and>
   snd (fst (create_sales_order_api sample_hash sample_str sample_settings
          (Inr (JObj order_empty_details)))) = 201"
proof -
  have h: "SAP_HOST sample_settings \<noteq> Some ''fail_connection''"
    by (simp add: sample_settings_def)
  have a: "map_of order_only_details ''details'' = Some JNull"
    by (simp add: order_only_details_def)
  have b: "map_of order_empty_details ''details'' = Some (JStr [])"
    by (simp add: order_empty_details_def)
  have o: "create_sales_order sample_hash sample_str sample_settings order_only_details =
             Inl (SAPOperationError ''Invalid order data: customer_id and items are required.'')"
    using h by (simp add: create_sales_order_connected order_only_details_def dict_get_def)
  have p: "\<exists>c. create_sales_order sample_hash sample_str sample_settings order_empty_details = Inr c"
    using h by (simp add: create_sales_order_connected order_empty_details_def dict_get_def)
  from details_key_presence_only [OF a, of sample_hash sample_str sample_settings]
       details_key_presence_only [OF b, of sample_hash sample_str sample_settings]
       a b o p
  show ?thesis by auto
qed

end
